theory Spec2Isabelle
  imports Complex_Main "HOL-Library.Monad_Syntax" "HOL-Library.AList"
begin

section \<open>The native fixture: \<^verbatim>\<open>examples/simple_exe_job/showsize.c\<close>\<close>

text \<open>
  \<^verbatim>\<open>
  int main(int arg, char** argv)
  {
      printf("Hi\n");
      printf("Max int = %d\n", INT_MAX);
      printf("Max unsigned long long = %llu\n", ULLONG_MAX);
      return 0;
  }
  \<close>
  The two macros come from \<^verbatim>\<open><limits.h>\<close>, which belongs to the platform and not to the
  repository, so the model takes their values as parameters.
\<close>

record limits =
  INT_MAX :: int
  ULLONG_MAX :: nat

text \<open>The values on the usual LP64 platform: 32-bit int, 64-bit unsigned long long.\<close>

definition lp64 :: limits where
  "lp64 = \<lparr>INT_MAX = 2147483647, ULLONG_MAX = 18446744073709551615\<rparr>"

subsection \<open>The part of \<^verbatim>\<open>printf\<close> the program uses\<close>

text \<open>The character of a decimal digit \<open>d < 10\<close>.\<close>

definition digit_char :: "nat \<Rightarrow> char" where
  "digit_char d = ''0123456789'' ! d"

text \<open>Conversion \<^verbatim>\<open>%u\<close> / \<^verbatim>\<open>%llu\<close>: decimal, no padding, no leading zeros.\<close>

fun fmt_u :: "nat \<Rightarrow> string" where
  "fmt_u n = (if n < 10 then [digit_char n] else fmt_u (n div 10) @ [digit_char (n mod 10)])"

declare fmt_u.simps [simp del]

text \<open>Conversion \<^verbatim>\<open>%d\<close>: a minus sign for a negative value, then the magnitude.\<close>

definition fmt_d :: "int \<Rightarrow> string" where
  "fmt_d i = (if i < 0 then CHR ''-'' # fmt_u (nat (- i)) else fmt_u (nat i))"

datatype printf_arg = IntArg int | ULongLongArg nat

text \<open>
  The format interpreter: ordinary characters are copied, \<^verbatim>\<open>%d\<close> consumes an int argument
  and \<^verbatim>\<open>%llu\<close> an unsigned long long one. Any other use of \<^verbatim>\<open>%\<close> (or a directive
  whose argument is missing or of the other type) is undefined behaviour in C and is
  the value \<open>None\<close> here.
\<close>

fun format :: "string \<Rightarrow> printf_arg list \<Rightarrow> string option" where
  "format [] args = Some []"
| "format (c # fs) args =
     (if c \<noteq> CHR ''%'' then map_option ((#) c) (format fs args)
      else if take 1 fs = ''d'' then
        (case args of IntArg i # args' \<Rightarrow> map_option ((@) (fmt_d i)) (format (drop 1 fs) args')
         | _ \<Rightarrow> None)
      else if take 3 fs = ''llu'' then
        (case args of ULongLongArg n # args' \<Rightarrow> map_option ((@) (fmt_u n)) (format (drop 3 fs) args')
         | _ \<Rightarrow> None)
      else None)"

text \<open>
  The process state the program touches is its standard output. \<^verbatim>\<open>printf\<close> appends the
  formatted text to it; a call with undefined behaviour leaves no defined state.
\<close>

type_synonym stdout = string

definition printf :: "string \<Rightarrow> printf_arg list \<Rightarrow> stdout \<Rightarrow> stdout option" where
  "printf fs args out = map_option ((@) out) (format fs args)"

text \<open>
  \<open>main\<close> returns the final standard output and the exit status. The parameters
  \<open>arg\<close> and \<open>argv\<close> are those of the C function; the body never reads them.
\<close>

definition main :: "limits \<Rightarrow> int \<Rightarrow> string list \<Rightarrow> (stdout \<times> int) option" where
  "main L arg argv =
     Option.bind (printf ''Hi\<newline>'' [] []) (\<lambda>out1.
     Option.bind (printf ''Max int = %d\<newline>'' [IntArg (INT_MAX L)] out1) (\<lambda>out2.
     Option.bind (printf ''Max unsigned long long = %llu\<newline>'' [ULongLongArg (ULLONG_MAX L)] out2) (\<lambda>out3.
     Some (out3, 0))))"

text \<open>Lines of a text: the pieces between newline characters; a final newline ends the
  last line and does not open another one.\<close>

fun text_lines_aux :: "string \<Rightarrow> string \<Rightarrow> string list" where
  "text_lines_aux cur [] = (if cur = [] then [] else [cur])"
| "text_lines_aux cur (c # cs) =
     (if c = CHR ''\<newline>'' then cur # text_lines_aux [] cs else text_lines_aux (cur @ [c]) cs)"

definition text_lines :: "string \<Rightarrow> string list" where
  "text_lines s = text_lines_aux [] s"

section \<open>The interpreted fixture: \<^verbatim>\<open>examples/simple_root6_job/hist.C\<close>\<close>

text \<open>
  The macro is run by the ROOT interpreter. ROOT itself is not part of the repository;
  the model keeps the part of its behaviour that the macro relies on:
  \<^item> objects with a name live in a directory: a \<^verbatim>\<open>TH1F\<close> or \<^verbatim>\<open>TTree\<close> attaches itself
    to the current directory \<^verbatim>\<open>gDirectory\<close> when it is constructed, \<^verbatim>\<open>TFile::Open\<close> makes
    the new file the current directory, \<^verbatim>\<open>TFile::Write\<close> stores the objects attached to
    the file;
  \<^item> a branch of a tree holds the address of a variable, and \<^verbatim>\<open>Fill\<close> reads the
    variables through these addresses;
  \<^item> a file name that does not start with \<^verbatim>\<open>/\<close> is resolved against the current
    directory of the process;
  \<^item> the file operations succeed (the current directory of the process is writable).
  What the generator returns, what \<^verbatim>\<open>FillRandom\<close> puts into a histogram and how the
  floating-point types round are parameters, collected in the record \<open>env\<close>.
\<close>

type_synonym path = string

datatype directory = gROOT | TFile path

text \<open>The addresses \<^verbatim>\<open>&pt\<close> and \<^verbatim>\<open>&eta\<close> of the two \<^verbatim>\<open>float\<close> variables.\<close>

datatype addr = Addr_pt | Addr_eta

record TH1F =
  h_name :: string
  h_title :: string
  h_nbinsx :: nat
  h_xlow :: real
  h_xup :: real
  h_filled :: "real list"

record TTree =
  t_name :: string
  t_title :: string
  t_branches :: "(string \<times> addr) list"
  t_entries :: "(string \<times> real) list list"

datatype tobject = Hist TH1F | Tree TTree

text \<open>A C++ variable that denotes a named object: the directory owning it, and its name.\<close>

type_synonym ref = "directory \<times> string"

record TCanvas =
  c_title :: string
  c_ww :: nat
  c_wh :: nat
  c_primitives :: "ref list"

datatype file_content =
    PdfDocument "tobject list"
  | RootFile "(string \<times> tobject) list"
  | TextLog string
  | Executable path

record 'g env =
  Rndm :: "int \<Rightarrow> 'g \<Rightarrow> real \<times> 'g"
  FillRandom :: "string \<Rightarrow> nat \<Rightarrow> TH1F \<Rightarrow> 'g \<Rightarrow> TH1F \<times> 'g"
  to_double :: "real \<Rightarrow> real"
  to_float :: "real \<Rightarrow> real"

record 'g state =
  disk :: "(path \<times> file_content) list"
  written :: "path list"
  cwd :: path
  gRandom :: 'g
  gDirectory :: directory
  gPad :: "string option"
  objects :: "(ref \<times> tobject) list"
  canvases :: "(string \<times> TCanvas) list"
  floats :: "addr \<Rightarrow> real"
  fill_calls :: nat

text \<open>The field \<open>written\<close> lists the files written so far, in order, and
  \<open>fill_calls\<close> counts the calls of \<^verbatim>\<open>TTree::Fill\<close>; both are bookkeeping for the
  properties below and influence nothing.\<close>

definition resolve :: "path \<Rightarrow> path \<Rightarrow> path" where
  "resolve dir p = (if take 1 p = ''/'' then p else dir @ ''/'' @ p)"

definition write_file :: "path \<Rightarrow> file_content \<Rightarrow> 'g state \<Rightarrow> 'g state" where
  "write_file p f s = s\<lparr>disk := AList.update p f (disk s), written := written s @ [p]\<rparr>"

subsection \<open>The operations of ROOT the macro calls\<close>

text \<open>\<^verbatim>\<open>TH1F h(name, title, nbinsx, xlow, xup)\<close>\<close>

definition new_TH1F ::
  "string \<Rightarrow> string \<Rightarrow> nat \<Rightarrow> real \<Rightarrow> real \<Rightarrow> 'g state \<Rightarrow> ref \<times> 'g state" where
  "new_TH1F name title nbinsx xlow xup s =
     (let r = (gDirectory s, name);
          h = \<lparr>h_name = name, h_title = title, h_nbinsx = nbinsx, h_xlow = xlow, h_xup = xup,
               h_filled = []\<rparr>
      in (r, s\<lparr>objects := AList.update r (Hist h) (objects s)\<rparr>))"

text \<open>\<^verbatim>\<open>h.FillRandom(fname, ntimes)\<close>: draws from \<^verbatim>\<open>gRandom\<close>.\<close>

definition h_FillRandom ::
  "'g env \<Rightarrow> ref \<Rightarrow> string \<Rightarrow> nat \<Rightarrow> 'g state \<Rightarrow> 'g state option" where
  "h_FillRandom E r fname ntimes s =
     (case map_of (objects s) r of
        Some (Hist h) \<Rightarrow>
          (let (h', g') = FillRandom E fname ntimes h (gRandom s)
           in Some (s\<lparr>objects := AList.update r (Hist h') (objects s), gRandom := g'\<rparr>))
      | _ \<Rightarrow> None)"

text \<open>\<^verbatim>\<open>TCanvas c(name, title, ww, wh)\<close>: the new canvas becomes the current pad.\<close>

definition new_TCanvas ::
  "string \<Rightarrow> string \<Rightarrow> nat \<Rightarrow> nat \<Rightarrow> 'g state \<Rightarrow> string \<times> 'g state" where
  "new_TCanvas name title ww wh s =
     (let c = \<lparr>c_title = title, c_ww = ww, c_wh = wh, c_primitives = []\<rparr>
      in (name, s\<lparr>canvases := AList.update name c (canvases s), gPad := Some name\<rparr>))"

text \<open>\<^verbatim>\<open>h.Draw()\<close>: the object is added to the primitives of the current pad.\<close>

definition Draw :: "ref \<Rightarrow> 'g state \<Rightarrow> 'g state option" where
  "Draw r s =
     (case gPad s of
        None \<Rightarrow> None
      | Some name \<Rightarrow>
          (case map_of (canvases s) name of
             None \<Rightarrow> None
           | Some c \<Rightarrow>
               Some (s\<lparr>canvases :=
                 AList.update name (c\<lparr>c_primitives := c_primitives c @ [r]\<rparr>) (canvases s)\<rparr>)))"

text \<open>\<^verbatim>\<open>c.SaveAs(filename)\<close> with a name ending in \<^verbatim>\<open>.pdf\<close>: one PDF document with the
  primitives of the canvas, as they are now.\<close>

definition ends_with :: "string \<Rightarrow> string \<Rightarrow> bool" where
  "ends_with sfx p = (length sfx \<le> length p \<and> drop (length p - length sfx) p = sfx)"

definition SaveAs :: "string \<Rightarrow> string \<Rightarrow> 'g state \<Rightarrow> 'g state option" where
  "SaveAs name filename s =
     (case map_of (canvases s) name of
        None \<Rightarrow> None
      | Some c \<Rightarrow>
          if ends_with ''.pdf'' filename
          then Some (write_file (resolve (cwd s) filename)
                 (PdfDocument (List.map_filter (map_of (objects s)) (c_primitives c))) s)
          else None)"

text \<open>\<^verbatim>\<open>TFile::Open(name, "RECREATE")\<close>: a new file is created, an existing one is
  overwritten; the file becomes the current directory. The macro uses no other mode.\<close>

definition TFile_Open :: "string \<Rightarrow> string \<Rightarrow> 'g state \<Rightarrow> (path \<times> 'g state) option" where
  "TFile_Open name option s =
     (if option = ''RECREATE''
      then (let p = resolve (cwd s) name
            in Some (p, (write_file p (RootFile []) s)\<lparr>gDirectory := TFile p\<rparr>))
      else None)"

text \<open>\<^verbatim>\<open>new TTree(name, title)\<close>\<close>

definition new_TTree :: "string \<Rightarrow> string \<Rightarrow> 'g state \<Rightarrow> ref \<times> 'g state" where
  "new_TTree name title s =
     (let r = (gDirectory s, name);
          t = \<lparr>t_name = name, t_title = title, t_branches = [], t_entries = []\<rparr>
      in (r, s\<lparr>objects := AList.update r (Tree t) (objects s)\<rparr>))"

text \<open>\<^verbatim>\<open>t->Branch(name, &var)\<close>\<close>

definition Branch :: "ref \<Rightarrow> string \<Rightarrow> addr \<Rightarrow> 'g state \<Rightarrow> 'g state option" where
  "Branch r name a s =
     (case map_of (objects s) r of
        Some (Tree t) \<Rightarrow>
          Some (s\<lparr>objects :=
            AList.update r (Tree (t\<lparr>t_branches := t_branches t @ [(name, a)]\<rparr>)) (objects s)\<rparr>)
      | _ \<Rightarrow> None)"

text \<open>\<^verbatim>\<open>t->Fill()\<close>: one more entry, with the present value of every branch variable.\<close>

definition Fill :: "ref \<Rightarrow> 'g state \<Rightarrow> 'g state option" where
  "Fill r s =
     (case map_of (objects s) r of
        Some (Tree t) \<Rightarrow>
          (let entry = map (\<lambda>(name, a). (name, floats s a)) (t_branches t)
           in Some (s\<lparr>objects :=
                  AList.update r (Tree (t\<lparr>t_entries := t_entries t @ [entry]\<rparr>)) (objects s),
                fill_calls := Suc (fill_calls s)\<rparr>))
      | _ \<Rightarrow> None)"

text \<open>\<^verbatim>\<open>f->Write()\<close>: the objects attached to the file go to disk.\<close>

definition attached :: "path \<Rightarrow> 'g state \<Rightarrow> (string \<times> tobject) list" where
  "attached p s = map (\<lambda>(r, ob). (snd r, ob)) (filter (\<lambda>(r, ob). fst r = TFile p) (objects s))"

definition TFile_Write :: "path \<Rightarrow> 'g state \<Rightarrow> 'g state option" where
  "TFile_Write p s =
     (case map_of (disk s) p of
        Some (RootFile old) \<Rightarrow> Some (write_file p (RootFile (attached p s)) s)
      | _ \<Rightarrow> None)"

text \<open>\<^verbatim>\<open>f->Close()\<close>: the objects attached to the file are deleted and the file is no
  longer the current directory.\<close>

definition TFile_Close :: "path \<Rightarrow> 'g state \<Rightarrow> 'g state option" where
  "TFile_Close p s =
     Some (s\<lparr>objects := filter (\<lambda>(r, ob). fst r \<noteq> TFile p) (objects s),
             gDirectory := (if gDirectory s = TFile p then gROOT else gDirectory s)\<rparr>)"

subsection \<open>The macro\<close>

text \<open>
  \<^verbatim>\<open>
  pt = gRandom->Rndm(1)*150;
  eta = (gRandom->Rndm(1)*10.) - 5.;
  t->Fill();
  \<close>
  \<^verbatim>\<open>Rndm\<close> returns a double; the arithmetic is done in double and the result is converted
  to float by the assignment.
\<close>

definition assign_pt :: "'g env \<Rightarrow> 'g state \<Rightarrow> 'g state" where
  "assign_pt E s =
     (let (x, g') = Rndm E 1 (gRandom s)
      in s\<lparr>gRandom := g', floats := (floats s)(Addr_pt := to_float E (to_double E (x * 150)))\<rparr>)"

definition assign_eta :: "'g env \<Rightarrow> 'g state \<Rightarrow> 'g state" where
  "assign_eta E s =
     (let (x, g') = Rndm E 1 (gRandom s)
      in s\<lparr>gRandom := g',
           floats := (floats s)(Addr_eta := to_float E (to_double E (to_double E (x * 10) - 5)))\<rparr>)"

definition loop_body :: "'g env \<Rightarrow> ref \<Rightarrow> 'g state \<Rightarrow> 'g state option" where
  "loop_body E t s = Fill t (assign_eta E (assign_pt E s))"

text \<open>\<^verbatim>\<open>for(int i = 0; i < 100; ++i) { ... }\<close>, entered with the present value of \<open>i\<close>.\<close>

function fill_loop :: "'g env \<Rightarrow> ref \<Rightarrow> int \<Rightarrow> 'g state \<Rightarrow> 'g state option" where
  "fill_loop E t i s =
     (if i < 100
      then (case loop_body E t s of None \<Rightarrow> None | Some s' \<Rightarrow> fill_loop E t (i + 1) s')
      else Some s)"
  by pat_completeness auto
termination
  by (relation "measure (\<lambda>(E, t, i, s). nat (100 - i))") auto

declare fill_loop.simps [simp del]

text \<open>
  The macro, statement by statement; the local variables \<^verbatim>\<open>h\<close>, \<^verbatim>\<open>c\<close>, \<^verbatim>\<open>f\<close> and \<^verbatim>\<open>t\<close> of
  the source are the bound names of the model:
  \<^verbatim>\<open>
  TH1F h("h", "", 10, 0, 1);
  h.FillRandom("gaus", 10000);
  TCanvas c("c", "", 800, 800);
  h.Draw();
  c.SaveAs("hist.pdf");
  float pt(0.), eta(0.);
  TFile *f = TFile::Open("simple_tree.root","RECREATE");
  TTree *t = new TTree("tree","Simple TTree");
  t->Branch("pt", &pt);
  t->Branch("eta", &eta);
  for(int i = 0; i < 100; ++i) { ... }
  f->Write();
  f->Close();
  \<close>
  A call on an object that does not exist, which the macro never makes, is the value
  \<open>None\<close>.
\<close>

definition hist :: "'g env \<Rightarrow> 'g state \<Rightarrow> 'g state option" where
  "hist E s0 = do {
     let (h, s) = new_TH1F ''h'' '''' 10 0 1 s0;
     s \<leftarrow> h_FillRandom E h ''gaus'' 10000 s;
     let (c, s) = new_TCanvas ''c'' '''' 800 800 s;
     s \<leftarrow> Draw h s;
     s \<leftarrow> SaveAs c ''hist.pdf'' s;
     let s = s\<lparr>floats := (floats s)(Addr_pt := 0, Addr_eta := 0)\<rparr>;
     (f, s) \<leftarrow> TFile_Open ''simple_tree.root'' ''RECREATE'' s;
     let (t, s) = new_TTree ''tree'' ''Simple TTree'' s;
     s \<leftarrow> Branch t ''pt'' Addr_pt s;
     s \<leftarrow> Branch t ''eta'' Addr_eta s;
     s \<leftarrow> fill_loop E t 0 s;
     s \<leftarrow> TFile_Write f s;
     TFile_Close f s
   }"

text \<open>The state in which the interpreter starts the macro: nothing written yet, no
  object in memory, the in-memory directory current, no pad.\<close>

definition start :: "path \<Rightarrow> (path \<times> file_content) list \<Rightarrow> 'g \<Rightarrow> 'g state" where
  "start dir d g =
     \<lparr>disk = d, written = [], cwd = dir, gRandom = g, gDirectory = gROOT, gPad = None,
      objects = [], canvases = [], floats = (\<lambda>a. 0), fill_calls = 0\<rparr>"

subsection \<open>What is observed of a run\<close>

text \<open>The records of a structured-data file: the entries of the trees it holds.\<close>

fun entries_of :: "tobject \<Rightarrow> (string \<times> real) list list" where
  "entries_of (Tree t) = t_entries t"
| "entries_of (Hist h) = []"

fun records_of :: "file_content \<Rightarrow> (string \<times> real) list list" where
  "records_of (RootFile obs) = concat (map (\<lambda>(name, ob). entries_of ob) obs)"
| "records_of _ = []"

text \<open>Path components, and what it means for a path to lie inside a directory: it is
  the directory, a slash, and a rest that never steps up.\<close>

fun components_aux :: "string \<Rightarrow> string \<Rightarrow> string list" where
  "components_aux cur [] = [cur]"
| "components_aux cur (c # cs) =
     (if c = CHR ''/'' then cur # components_aux [] cs else components_aux (cur @ [c]) cs)"

definition components :: "path \<Rightarrow> string list" where
  "components p = components_aux [] p"

definition is_relative :: "path \<Rightarrow> bool" where
  "is_relative p = (take 1 p \<noteq> ''/'')"

definition inside :: "path \<Rightarrow> path \<Rightarrow> bool" where
  "inside dir p =
     (take (length dir + 1) p = dir @ ''/'' \<and> ''..'' \<notin> set (components (drop (length dir + 1) p)))"

section \<open>The execution core\<close>

text \<open>
  The repository holds the two fixtures only. The core that runs them (job descriptor,
  toolchain adapters, orchestrator, artifact validator, reporter) has no source file; it
  is described in the specification, and every definition of this section follows the
  specification's words. The external collaborators (compiler, interpreter runtime,
  file system) are injected capabilities, as the specification's design notes ask.
\<close>

text \<open>Modelled from the spec: the job kinds of JobDescriptor (section 3); no source
  file declares them.\<close>

datatype job_kind = NativeCompiled | InterpretedScript

text \<open>Modelled from the spec: the expected kinds of a declared artifact (section 3).\<close>

datatype artifact_kind = text_log | binary_document | structured_data_file

text \<open>Modelled from the spec: the two failures that end a job without a verdict
  (sections 4.1, 4.3 and 7).\<close>

datatype core_error = InvalidDescriptor | EnvironmentError

text \<open>Modelled from the spec: the sub-reasons of \<open>PrepareFailed\<close> (section 7); a compile
  error carries the compiler's diagnostic text.\<close>

datatype prepare_failure = CompileError string | RuntimeUnavailable

text \<open>Modelled from the spec: the sub-reasons of \<open>RunFailed\<close> (section 7).\<close>

datatype run_failure = Timeout | ArtifactEscapedSandbox | ProcessCrashed

text \<open>Modelled from the spec: the outcome of a Verdict (section 3), the two failures
  with their sub-reason.\<close>

datatype outcome_kind =
  Passed | PrepareFailed prepare_failure | RunFailed run_failure | ArtifactMissing | ArtifactInvalid

text \<open>Modelled from the spec: the steps of runJob (section 4.3), as names, so that a run
  can say which of them it carried out.\<close>

datatype step = CreateDirectory | Prepare | Execute | Validate

text \<open>Modelled from the spec: JobDescriptor (section 3); the source file itself is not
  part of the descriptor, only its path.\<close>

record JobDescriptor =
  kind :: job_kind
  sourcePath :: path
  workingDirectory :: path
  expectedArtifacts :: "(path \<times> artifact_kind) list"

text \<open>Modelled from the spec: the status of the run sub-step (section 3): the exit code
  of a process that ended by itself, or the failure of the execution phase.\<close>

datatype run_status = Finished int | Failed run_failure

text \<open>Modelled from the spec: ExecutionResult (section 3), with the status of the two
  sub-steps kept apart: \<open>prepareStatus\<close> is \<open>None\<close> when prepare succeeded, \<open>runStatus\<close> is
  \<open>None\<close> when nothing was run.\<close>

record ExecutionResult =
  prepareStatus :: "prepare_failure option"
  runStatus :: "run_status option"
  capturedOutput :: string

text \<open>Modelled from the spec: ArtifactCheck (section 3).\<close>

record ArtifactCheck =
  present :: bool
  sizeBytes :: nat
  structurallyValid :: bool

text \<open>Modelled from the spec: Verdict (section 3), with the ArtifactCheck list that
  section 6 adds for diagnostics.\<close>

record Verdict =
  outcome :: outcome_kind
  detail :: string
  artifactChecks :: "ArtifactCheck list"

text \<open>Modelled from the spec: how the external process of a job ends (sections 4.3 and
  7): by itself with an exit code, terminated at the end of the time budget, or by a
  crash.\<close>

datatype process_end = Exited int | TimedOut | Crashed

text \<open>Modelled from the spec: what the external process of a job leaves behind
  (section 6): how it ended, its combined output, the file system after it, and the
  paths it wrote as the platform observed them.\<close>

record process_result =
  ended :: process_end
  combined_output :: string
  disk_after :: "(path \<times> file_content) list"
  paths_written :: "path list"

text \<open>Modelled from the spec: the injected capabilities (sections 6 and 9): a compiler
  given a source path and an output path, returning an exit code and diagnostics; the
  interpreter runtime, which may be absent; process execution under a time budget; the
  file system (whether a directory can be created, the size of a file). The name of the
  executable inside the working directory is configuration.\<close>

record toolchain =
  compiler :: "path \<Rightarrow> path \<Rightarrow> (path \<times> file_content) list \<Rightarrow> (int \<times> string) \<times> (path \<times> file_content) list"
  runtime_available :: bool
  run_executable :: "path \<Rightarrow> path \<Rightarrow> nat \<Rightarrow> (path \<times> file_content) list \<Rightarrow> process_result"
  run_interpreter :: "path \<Rightarrow> path \<Rightarrow> nat \<Rightarrow> (path \<times> file_content) list \<Rightarrow> process_result"
  can_create :: "path \<Rightarrow> bool"
  file_size :: "file_content \<Rightarrow> nat"
  executable_name :: path
  budget :: nat

text \<open>Modelled from the spec: step (1) of runJob, "create workingDirectory fresh - fails
  with EnvironmentError if it cannot be created or already exists non-empty". A directory
  is non-empty when some file of the file system lies under it.\<close>

definition occupied :: "path \<Rightarrow> (path \<times> file_content) list \<Rightarrow> bool" where
  "occupied dir d = list_ex (\<lambda>p. take (length dir + 1) p = dir @ ''/'') (map fst d)"

text \<open>Modelled from the spec: the creation itself; an empty directory adds no file.\<close>

definition create_workingDirectory ::
  "toolchain \<Rightarrow> path \<Rightarrow> (path \<times> file_content) list \<Rightarrow> core_error + (path \<times> file_content) list" where
  "create_workingDirectory tc dir d =
     (if can_create tc dir \<and> \<not> occupied dir d then Inr d else Inl EnvironmentError)"

text \<open>Modelled from the spec: prepare of the two adapters (section 4.2). NativeCompiled
  compiles \<open>sourcePath\<close> into an executable inside the working directory and fails "if
  compilation exits non-zero or produces no executable"; InterpretedScript compiles
  nothing "but must confirm the interpreter runtime is available". The result of a
  successful prepare is the program to run and the file system after it.\<close>

definition prepare ::
  "toolchain \<Rightarrow> JobDescriptor \<Rightarrow> (path \<times> file_content) list \<Rightarrow>
     prepare_failure + (path \<times> (path \<times> file_content) list)" where
  "prepare tc d dsk =
     (case kind d of
        NativeCompiled \<Rightarrow>
          (let exe = workingDirectory d @ ''/'' @ executable_name tc;
               ((code, diag), dsk') = compiler tc (sourcePath d) exe dsk
           in if code \<noteq> 0 \<or> map_of dsk' exe = None then Inl (CompileError diag)
              else Inr (exe, dsk'))
      | InterpretedScript \<Rightarrow>
          if runtime_available tc then Inr (sourcePath d, dsk) else Inl RuntimeUnavailable)"

text \<open>Modelled from the spec: execute of the two adapters (section 4.2): the produced
  executable, respectively the interpreter on \<open>sourcePath\<close>, with the working directory
  as current directory, under the time budget.\<close>

definition execute ::
  "toolchain \<Rightarrow> JobDescriptor \<Rightarrow> path \<Rightarrow> (path \<times> file_content) list \<Rightarrow> process_result" where
  "execute tc d prog dsk =
     (case kind d of
        NativeCompiled \<Rightarrow> run_executable tc prog (workingDirectory d) (budget tc) dsk
      | InterpretedScript \<Rightarrow> run_interpreter tc prog (workingDirectory d) (budget tc) dsk)"

text \<open>Modelled from the spec: the structural probe of the Artifact Validator (section
  4.4): a text log is readable as text, a binary document has the signature of its
  format, a structured-data file parses and its trees are consistent: a nonzero row
  count, and every row with one value for each branch.\<close>

fun consistent :: "tobject \<Rightarrow> bool" where
  "consistent (Tree t) = list_all (\<lambda>e. map fst e = map fst (t_branches t)) (t_entries t)"
| "consistent (Hist h) = True"

text \<open>Modelled from the spec: the probe for each declared kind (section 4.4); a file of
  another format than the declared one fails it.\<close>

fun probe :: "artifact_kind \<Rightarrow> file_content \<Rightarrow> bool" where
  "probe text_log (TextLog s) = True"
| "probe binary_document (PdfDocument x) = True"
| "probe structured_data_file (RootFile obs) =
     (records_of (RootFile obs) \<noteq> [] \<and> list_all (\<lambda>(name, ob). consistent ob) obs)"
| "probe k f = False"

text \<open>Modelled from the spec: the Artifact Validator (section 4.4): each declared
  relative path is resolved against the working directory and looked up there, never
  anywhere else; all declared artifacts are checked.\<close>

definition check_artifact ::
  "toolchain \<Rightarrow> path \<Rightarrow> (path \<times> file_content) list \<Rightarrow> path \<times> artifact_kind \<Rightarrow> ArtifactCheck" where
  "check_artifact tc dir dsk a =
     (case map_of dsk (dir @ ''/'' @ fst a) of
        None \<Rightarrow> \<lparr>present = False, sizeBytes = 0, structurallyValid = False\<rparr>
      | Some f \<Rightarrow> \<lparr>present = True, sizeBytes = file_size tc f, structurallyValid = probe (snd a) f\<rparr>)"

text \<open>Modelled from the spec: "all declared artifacts are checked even after the first
  failure" (section 4.4).\<close>

definition validate ::
  "toolchain \<Rightarrow> path \<Rightarrow> (path \<times> file_content) list \<Rightarrow> (path \<times> artifact_kind) list \<Rightarrow> ArtifactCheck list" where
  "validate tc dir dsk arts = map (check_artifact tc dir dsk) arts"

text \<open>Modelled from the spec: the sandbox policy (section 4.2): "any path written by
  the job outside its working directory" is a violation.\<close>

definition escaped :: "path \<Rightarrow> path list \<Rightarrow> bool" where
  "escaped dir ps = list_ex (\<lambda>p. \<not> inside dir p) ps"

text \<open>Modelled from the spec: the Result Reporter (section 4.5): the first
  short-circuiting failure goes directly to the verdict; otherwise \<open>Passed\<close> "only if
  every declared artifact is present and structurally valid, else the worst of
  ArtifactMissing/ArtifactInvalid", a missing artifact counting as worse than an invalid
  one.\<close>

definition artifact_outcome :: "ArtifactCheck list \<Rightarrow> outcome_kind" where
  "artifact_outcome cs =
     (if list_ex (\<lambda>c. \<not> present c) cs then ArtifactMissing
      else if list_ex (\<lambda>c. \<not> structurallyValid c) cs then ArtifactInvalid
      else Passed)"

text \<open>Modelled from the spec: "maps the first short-circuiting failure
  (prepare/run/timeout) directly to a Verdict; otherwise maps artifact-check results"
  (section 4.5).\<close>

definition classify :: "ExecutionResult \<Rightarrow> ArtifactCheck list \<Rightarrow> outcome_kind" where
  "classify x cs =
     (case prepareStatus x of
        Some pf \<Rightarrow> PrepareFailed pf
      | None \<Rightarrow>
          (case runStatus x of
             Some (Failed rf) \<Rightarrow> RunFailed rf
           | _ \<Rightarrow> artifact_outcome cs))"

text \<open>Modelled from the spec: the Verdict the reporter constructs (section 4.5); the
  detail is the text captured at the step that decided.\<close>

definition report :: "ExecutionResult \<Rightarrow> ArtifactCheck list \<Rightarrow> Verdict" where
  "report x cs = \<lparr>outcome = classify x cs, detail = capturedOutput x, artifactChecks = cs\<rparr>"

text \<open>Modelled from the spec: the result of runJob (section 4.3): the ExecutionResult
  and the ArtifactCheck list, and with them the steps that were carried out, in order,
  and the file system left behind.\<close>

record JobRun =
  execution :: ExecutionResult
  checks :: "ArtifactCheck list"
  steps :: "step list"
  disk_left :: "(path \<times> file_content) list"

text \<open>Modelled from the spec: the run status of step (4) (sections 4.2 and 4.3): a
  process over its budget is \<open>Timeout\<close>, a crashed one \<open>ProcessCrashed\<close>, one that wrote
  outside the working directory \<open>ArtifactEscapedSandbox\<close>; otherwise the exit code is
  recorded.\<close>

definition run_status_of :: "path \<Rightarrow> process_result \<Rightarrow> run_status" where
  "run_status_of dir r =
     (case ended r of
        TimedOut \<Rightarrow> Failed Timeout
      | Crashed \<Rightarrow> Failed ProcessCrashed
      | Exited code \<Rightarrow>
          if escaped dir (paths_written r) then Failed ArtifactEscapedSandbox else Finished code)"

text \<open>Modelled from the spec: the Execution Orchestrator (section 4.3), steps (1) to
  (5). A failed prepare and a timeout return before validation; an exit code, zero or
  not, never decides anything.\<close>

definition runJob ::
  "toolchain \<Rightarrow> JobDescriptor \<Rightarrow> (path \<times> file_content) list \<Rightarrow> core_error + JobRun" where
  "runJob tc d dsk =
     (case create_workingDirectory tc (workingDirectory d) dsk of
        Inl e \<Rightarrow> Inl e
      | Inr dsk0 \<Rightarrow>
          (case prepare tc d dsk0 of
             Inl pf \<Rightarrow>
               Inr \<lparr>execution = \<lparr>prepareStatus = Some pf, runStatus = None,
                       capturedOutput = (case pf of CompileError diag \<Rightarrow> diag | RuntimeUnavailable \<Rightarrow> [])\<rparr>,
                    checks = [], steps = [CreateDirectory, Prepare], disk_left = dsk0\<rparr>
           | Inr (prog, dsk1) \<Rightarrow>
               (let r = execute tc d prog dsk1;
                    x = \<lparr>prepareStatus = None,
                         runStatus = Some (run_status_of (workingDirectory d) r),
                         capturedOutput = combined_output r\<rparr>
                in if ended r = TimedOut
                   then Inr \<lparr>execution = x, checks = [],
                          steps = [CreateDirectory, Prepare, Execute], disk_left = disk_after r\<rparr>
                   else Inr \<lparr>execution = x,
                          checks = validate tc (workingDirectory d) (disk_after r) (expectedArtifacts d),
                          steps = [CreateDirectory, Prepare, Execute, Validate],
                          disk_left = disk_after r\<rparr>)))"

text \<open>Modelled from the spec: the Verdict of a run, the one thing exposed to the caller
  (sections 2 and 6).\<close>

definition verdict :: "JobRun \<Rightarrow> Verdict" where
  "verdict j = report (execution j) (checks j)"

subsection \<open>The fixtures as jobs\<close>

text \<open>Modelled from the spec: the processes of the two fixtures under the capabilities
  above. The native program is started "with no arguments", so \<open>argv\<close> holds the program
  name only; the macro runs in the interpreter with the working directory as current
  directory. Both end by themselves, within any budget; a run with undefined behaviour
  counts as a crash. The interpreter's own messages are left out of the captured
  output.\<close>

definition showsize_process ::
  "limits \<Rightarrow> path \<Rightarrow> path \<Rightarrow> nat \<Rightarrow> (path \<times> file_content) list \<Rightarrow> process_result" where
  "showsize_process L exe dir b dsk =
     (case main L 1 [exe] of
        None \<Rightarrow> \<lparr>ended = Crashed, combined_output = [], disk_after = dsk, paths_written = []\<rparr>
      | Some (out, code) \<Rightarrow>
          \<lparr>ended = Exited code, combined_output = out, disk_after = dsk, paths_written = []\<rparr>)"

text \<open>Modelled from the spec: the interpreter on the macro, "with the working directory
  as the interpreter's current directory" (section 4.2).\<close>

definition hist_process ::
  "'g env \<Rightarrow> 'g \<Rightarrow> path \<Rightarrow> path \<Rightarrow> nat \<Rightarrow> (path \<times> file_content) list \<Rightarrow> process_result" where
  "hist_process E g src dir b dsk =
     (case hist E (start dir dsk g) of
        None \<Rightarrow> \<lparr>ended = Crashed, combined_output = [], disk_after = dsk, paths_written = []\<rparr>
      | Some s \<Rightarrow>
          \<lparr>ended = Exited 0, combined_output = [], disk_after = disk s, paths_written = written s\<rparr>)"

text \<open>Modelled from the spec: a compiler as the specification sees it: its verdict on a
  source path (exit code and diagnostics), and on success the executable at the output
  path.\<close>

definition compiler_of ::
  "(path \<Rightarrow> int \<times> string) \<Rightarrow> path \<Rightarrow> path \<Rightarrow> (path \<times> file_content) list \<Rightarrow>
     (int \<times> string) \<times> (path \<times> file_content) list" where
  "compiler_of cc src out dsk =
     (cc src, if fst (cc src) = 0 then AList.update out (Executable src) dsk else dsk)"

text \<open>Modelled from the spec: the toolchain that runs the two fixtures: any toolchain
  \<open>tc\<close>, with its compiler of the shape above and the two fixture processes in the place
  of process execution.\<close>

definition fixture_toolchain ::
  "toolchain \<Rightarrow> (path \<Rightarrow> int \<times> string) \<Rightarrow> limits \<Rightarrow> 'g env \<Rightarrow> 'g \<Rightarrow> toolchain" where
  "fixture_toolchain tc cc L E g =
     tc\<lparr>compiler := compiler_of cc, run_executable := showsize_process L,
        run_interpreter := hist_process E g\<rparr>"

subsection \<open>Auxiliary notions for the proofs\<close>

text \<open>An entry as the loop body of the macro produces it: for each branch the value
  computed from some result of the generator.\<close>

definition entry_of :: "'g env \<Rightarrow> (string \<times> addr) list \<Rightarrow> (string \<times> real) list \<Rightarrow> bool" where
  "entry_of E bs e = (\<exists>g1 g2. e = map (\<lambda>(name, a). (name,
       case a of Addr_pt \<Rightarrow> to_float E (to_double E (fst (Rndm E 1 g1) * 150))
       | Addr_eta \<Rightarrow> to_float E (to_double E (to_double E (fst (Rndm E 1 g2) * 10) - 5)))) bs)"

definition same_files :: "'g state \<Rightarrow> 'g state \<Rightarrow> bool" where
  "same_files s s' = (disk s' = disk s \<and> written s' = written s \<and> cwd s' = cwd s \<and>
     gDirectory s' = gDirectory s)"

text \<open>The tree of the macro with given entries, the histogram after \<^verbatim>\<open>FillRandom\<close>, the
  state in which the loop is entered, and the file system the macro leaves.\<close>

definition tree_of :: "(string \<times> real) list list \<Rightarrow> TTree" where
  "tree_of es = \<lparr>t_name = ''tree'', t_title = ''Simple TTree'',
     t_branches = [(''pt'', Addr_pt), (''eta'', Addr_eta)], t_entries = es\<rparr>"

definition filled_hist :: "'g env \<Rightarrow> 'g \<Rightarrow> TH1F \<times> 'g" where
  "filled_hist E g = FillRandom E ''gaus'' 10000
     \<lparr>h_name = ''h'', h_title = [], h_nbinsx = 10, h_xlow = 0, h_xup = 1, h_filled = []\<rparr> g"

definition before_loop :: "'g env \<Rightarrow> path \<Rightarrow> (path \<times> file_content) list \<Rightarrow> 'g \<Rightarrow> 'g state" where
  "before_loop E dir d g =
     \<lparr>disk = AList.update (dir @ ''/simple_tree.root'') (RootFile [])
               (AList.update (dir @ ''/hist.pdf'') (PdfDocument [Hist (fst (filled_hist E g))]) d),
      written = [dir @ ''/hist.pdf'', dir @ ''/simple_tree.root''],
      cwd = dir, gRandom = snd (filled_hist E g), gDirectory = TFile (dir @ ''/simple_tree.root''),
      gPad = Some ''c'',
      objects = [((gROOT, ''h''), Hist (fst (filled_hist E g))),
                 ((TFile (dir @ ''/simple_tree.root''), ''tree''), Tree (tree_of []))],
      canvases = [(''c'', \<lparr>c_title = [], c_ww = 800, c_wh = 800, c_primitives = [(gROOT, ''h'')]\<rparr>)],
      floats = (\<lambda>a. 0), fill_calls = 0\<rparr>"

definition after_hist ::
  "'g env \<Rightarrow> path \<Rightarrow> (path \<times> file_content) list \<Rightarrow> 'g \<Rightarrow> (string \<times> real) list list \<Rightarrow>
     (path \<times> file_content) list" where
  "after_hist E dir d g new =
     AList.update (dir @ ''/simple_tree.root'') (RootFile [(''tree'', Tree (tree_of new))])
       (AList.update (dir @ ''/hist.pdf'') (PdfDocument [Hist (fst (filled_hist E g))]) d)"

subsection \<open>Concrete inputs\<close>

text \<open>A generator with values \<open>k / 1000\<close>, a \<^verbatim>\<open>FillRandom\<close> that draws once, exact double
  arithmetic and a float type with ten binary places: small stand-ins for the platform,
  for evaluating the model on explicit inputs.\<close>

definition example_env :: "nat env" where
  "example_env =
     \<lparr>Rndm = (\<lambda>i g. (real (g mod 1000) / 1000, (7 * g + 3) mod 1000)),
      FillRandom = (\<lambda>fname ntimes h g. (h\<lparr>h_filled := [1 / 2]\<rparr>, Suc g)),
      to_double = (\<lambda>x. x),
      to_float = (\<lambda>x. real_of_int \<lfloor>x * 1024\<rfloor> / 1024)\<rparr>"

definition cc_accepts :: "path \<Rightarrow> int \<times> string" where
  "cc_accepts src = (0, [])"

definition cc_rejects :: "path \<Rightarrow> int \<times> string" where
  "cc_rejects src = (1, ''showsize.c:10: error'')"

definition example_toolchain :: toolchain where
  "example_toolchain =
     \<lparr>compiler = compiler_of cc_accepts, runtime_available = True,
      run_executable = showsize_process lp64, run_interpreter = hist_process example_env 1,
      can_create = (\<lambda>p. True), file_size = (\<lambda>f. length (records_of f) + 1),
      executable_name = ''showsize'', budget = 30\<rparr>"

definition native_job :: JobDescriptor where
  "native_job =
     \<lparr>kind = NativeCompiled, sourcePath = ''showsize.c'', workingDirectory = ''/tmp/job1'',
      expectedArtifacts = []\<rparr>"

definition script_job :: JobDescriptor where
  "script_job =
     \<lparr>kind = InterpretedScript, sourcePath = ''hist.C'', workingDirectory = ''/tmp/job2'',
      expectedArtifacts = [(''hist.pdf'', binary_document), (''simple_tree.root'', structured_data_file)]\<rparr>"




definition unit_generator :: "'g env \<Rightarrow> bool" where
  "unit_generator E = (\<forall>i g. 0 \<le> fst (Rndm E i g) \<and> fst (Rndm E i g) \<le> 1)"

text \<open>What the bounds on the stored values need from the two floating-point types:
  rounding is monotone, and the integers 0, 5, -5, 10 and 150 are represented exactly.
  Both hold for IEEE 754 binary32 and binary64 in every rounding mode.\<close>

definition rounding :: "(real \<Rightarrow> real) \<Rightarrow> bool" where
  "rounding r = (mono r \<and> r 0 = 0 \<and> r 5 = 5 \<and> r (- 5) = - 5 \<and> r 10 = 10 \<and> r 150 = 150)"



section \<open>Properties of the native fixture\<close>

lemma fmt_u_small: "n < 10 \<Longrightarrow> fmt_u n = [digit_char n]"
  by (simp add: fmt_u.simps)

lemma fmt_u_big: "\<not> n < 10 \<Longrightarrow> fmt_u n = fmt_u (n div 10) @ [digit_char (n mod 10)]"
  by (subst fmt_u.simps) simp

lemma digit_char_not_newline: "d < 10 \<Longrightarrow> digit_char d \<noteq> CHR ''\<newline>''"
proof -
  assume "d < 10"
  then have "digit_char d \<in> set ''0123456789''"
    unfolding digit_char_def by (intro nth_mem) simp
  then show ?thesis by auto
qed

lemma fmt_u_no_newline: "CHR ''\<newline>'' \<notin> set (fmt_u n)"
proof (induction n rule: fmt_u.induct)
  case (1 n)
  show ?case
  proof (cases "n < 10")
    case True
    then show ?thesis using digit_char_not_newline [of n] by (simp add: fmt_u_small)
  next
    case False
    have "n mod 10 < 10" by simp
    then have "digit_char (n mod 10) \<noteq> CHR ''\<newline>''" by (rule digit_char_not_newline)
    with False 1 show ?thesis by (auto simp add: fmt_u_big)
  qed
qed

lemma fmt_d_no_newline: "CHR ''\<newline>'' \<notin> set (fmt_d i)"
  by (simp add: fmt_d_def fmt_u_no_newline)

lemma text_lines_aux_line:
  "CHR ''\<newline>'' \<notin> set xs \<Longrightarrow>
   text_lines_aux cur (xs @ CHR ''\<newline>'' # rest) = (cur @ xs) # text_lines_aux [] rest"
  by (induction xs arbitrary: cur) auto

lemma main_output:
  "main L arg argv =
     Some (''Hi\<newline>'' @ (''Max int = '' @ fmt_d (INT_MAX L)) @ ''\<newline>'' @
           (''Max unsigned long long = '' @ fmt_u (ULLONG_MAX L)) @ ''\<newline>'', 0)"
  by (simp add: main_def printf_def)

lemma text_lines_three:
  assumes "CHR ''\<newline>'' \<notin> set a" "CHR ''\<newline>'' \<notin> set b" "CHR ''\<newline>'' \<notin> set c"
  shows "text_lines (a @ ''\<newline>'' @ b @ ''\<newline>'' @ c @ ''\<newline>'') = [a, b, c]"
proof -
  have "text_lines_aux [] (a @ CHR ''\<newline>'' # b @ CHR ''\<newline>'' # c @ CHR ''\<newline>'' # [])
      = a # b # c # text_lines_aux [] []"
    using assms by (simp add: text_lines_aux_line)
  then show ?thesis by (simp add: text_lines_def)
qed

lemma main_lp64:
  "main lp64 arg argv =
     Some (''Hi\<newline>Max int = 2147483647\<newline>Max unsigned long long = 18446744073709551615\<newline>'', 0)"
  by (simp add: main_output lp64_def fmt_d_def fmt_u_small fmt_u_big digit_char_def)

text \<open>
  C1, as the specification states it, fails: on the LP64 platform the program, started
  as \<^verbatim>\<open>showsize\<close>, prints three lines, not two.
\<close>

theorem showsize_two_lines_counterexample:
  "main lp64 1 [''showsize''] =
     Some (''Hi\<newline>Max int = 2147483647\<newline>Max unsigned long long = 18446744073709551615\<newline>'', 0)
   \<and> length (text_lines
        ''Hi\<newline>Max int = 2147483647\<newline>Max unsigned long long = 18446744073709551615\<newline>'') \<noteq> 2"
  by (simp add: main_lp64 text_lines_def)

text \<open>
  C1, amended: for every invocation (any values of the two limits, any arguments) the
  program prints both integer-limit constants to standard output, and the text that a
  text-log artifact capturing this output holds is non-empty and has exactly three
  lines: the greeting \<^verbatim>\<open>Hi\<close>, then one line for each constant.
\<close>

theorem showsize_prints_three_lines:
  "\<exists>out status. main L arg argv = Some (out, status) \<and> out \<noteq> [] \<and>
     text_lines out =
       [''Hi'', ''Max int = '' @ fmt_d (INT_MAX L),
        ''Max unsigned long long = '' @ fmt_u (ULLONG_MAX L)] \<and>
     length (text_lines out) = 3"
proof -
  let ?a = "''Hi''" and ?b = "''Max int = '' @ fmt_d (INT_MAX L)"
    and ?c = "''Max unsigned long long = '' @ fmt_u (ULLONG_MAX L)"
  have "text_lines (?a @ ''\<newline>'' @ ?b @ ''\<newline>'' @ ?c @ ''\<newline>'') = [?a, ?b, ?c]"
    by (rule text_lines_three) (simp_all add: fmt_d_no_newline fmt_u_no_newline)
  moreover have "main L arg argv = Some (?a @ ''\<newline>'' @ ?b @ ''\<newline>'' @ ?c @ ''\<newline>'', 0)"
    by (simp add: main_output)
  ultimately show ?thesis by simp
qed

text \<open>
  C8: standard output and exit status of the native fixture do not depend on the
  command line: any two invocations, with any argument counts and argument vectors,
  give the same output and the same exit code.
\<close>

theorem showsize_ignores_arguments:
  "main L arg argv = main L arg' argv'"
  by (simp add: main_output)


section \<open>Properties of the interpreted fixture\<close>

subsection \<open>The loop\<close>

lemma assign_floats:
  "\<exists>g1 g2. floats (assign_eta E (assign_pt E s)) = (floats s)
      (Addr_pt := to_float E (to_double E (fst (Rndm E 1 g1) * 150)),
       Addr_eta := to_float E (to_double E (to_double E (fst (Rndm E 1 g2) * 10) - 5)))"
proof -
  obtain x g1 where r1: "Rndm E 1 (gRandom s) = (x, g1)" by (cases "Rndm E 1 (gRandom s)")
  obtain y g2 where r2: "Rndm E 1 g1 = (y, g2)" by (cases "Rndm E 1 g1")
  have "floats (assign_eta E (assign_pt E s)) = (floats s)
      (Addr_pt := to_float E (to_double E (fst (Rndm E 1 (gRandom s)) * 150)),
       Addr_eta := to_float E (to_double E (to_double E (fst (Rndm E 1 g1) * 10) - 5)))"
    using r1 r2 by (simp add: assign_eta_def assign_pt_def)
  then show ?thesis by blast
qed

lemma assign_other:
  "objects (assign_eta E (assign_pt E s)) = objects s"
  "disk (assign_eta E (assign_pt E s)) = disk s"
  "written (assign_eta E (assign_pt E s)) = written s"
  "cwd (assign_eta E (assign_pt E s)) = cwd s"
  "gDirectory (assign_eta E (assign_pt E s)) = gDirectory s"
  "fill_calls (assign_eta E (assign_pt E s)) = fill_calls s"
  by (simp_all add: assign_eta_def assign_pt_def split: prod.splits)

lemma entry_of_floats:
  assumes "fl = (fl0 :: addr \<Rightarrow> real)
      (Addr_pt := to_float E (to_double E (fst (Rndm E 1 g1) * 150)),
       Addr_eta := to_float E (to_double E (to_double E (fst (Rndm E 1 g2) * 10) - 5)))"
  shows "entry_of E bs (map (\<lambda>(name, a). (name, fl a)) bs)"
proof -
  have "fl a = (case a of Addr_pt \<Rightarrow> to_float E (to_double E (fst (Rndm E 1 g1) * 150))
       | Addr_eta \<Rightarrow> to_float E (to_double E (to_double E (fst (Rndm E 1 g2) * 10) - 5)))" for a
    using assms by (cases a) simp_all
  then show ?thesis unfolding entry_of_def by (intro exI [of _ g1] exI [of _ g2]) simp
qed

lemma loop_body_effect:
  assumes "map_of (objects s) t = Some (Tree T)"
  shows "\<exists>e s'. entry_of E (t_branches T) e \<and> loop_body E t s = Some s' \<and>
       objects s' = AList.update t (Tree (T\<lparr>t_entries := t_entries T @ [e]\<rparr>)) (objects s) \<and>
       fill_calls s' = Suc (fill_calls s) \<and> same_files s s'"
proof -
  let ?s2 = "assign_eta E (assign_pt E s)"
  let ?e = "map (\<lambda>(name, a). (name, floats ?s2 a)) (t_branches T)"
  obtain g1 g2 where "floats ?s2 = (floats s)
      (Addr_pt := to_float E (to_double E (fst (Rndm E 1 g1) * 150)),
       Addr_eta := to_float E (to_double E (to_double E (fst (Rndm E 1 g2) * 10) - 5)))"
    using assign_floats [of E s] by blast
  then have e: "entry_of E (t_branches T) ?e" by (rule entry_of_floats)
  have "loop_body E t s = Some (?s2\<lparr>objects :=
          AList.update t (Tree (T\<lparr>t_entries := t_entries T @ [?e]\<rparr>)) (objects ?s2),
          fill_calls := Suc (fill_calls ?s2)\<rparr>)"
    using assms by (simp add: loop_body_def Fill_def assign_other)
  then show ?thesis using e by (auto simp add: assign_other same_files_def)
qed

text \<open>Entered with \<open>i\<close>, the loop runs to its end, calls \<^verbatim>\<open>Fill\<close> \<open>100 - i\<close> times and appends
  as many entries to the tree; it touches no file.\<close>

lemma fill_loop_effect:
  assumes "map_of (objects s) t = Some (Tree T)"
  shows "\<exists>new s'. fill_loop E t i s = Some s' \<and>
       objects s' = AList.update t (Tree (T\<lparr>t_entries := t_entries T @ new\<rparr>)) (objects s) \<and>
       length new = nat (100 - i) \<and> (\<forall>e\<in>set new. entry_of E (t_branches T) e) \<and>
       fill_calls s' = fill_calls s + nat (100 - i) \<and> same_files s s'"
  using assms
proof (induction E t i s arbitrary: T rule: fill_loop.induct)
  case (1 E t i s)
  show ?case
  proof (cases "i < 100")
    case False
    then have "fill_loop E t i s = Some s" by (simp add: fill_loop.simps)
    moreover have "objects s = AList.update t (Tree (T\<lparr>t_entries := t_entries T @ []\<rparr>)) (objects s)"
      using "1.prems" by (simp add: update_triv)
    ultimately show ?thesis using False
      by (intro exI [of _ "[]"] exI [of _ s]) (simp add: same_files_def)
  next
    case True
    obtain e s1 where e: "entry_of E (t_branches T) e" and b: "loop_body E t s = Some s1"
      and o1: "objects s1 = AList.update t (Tree (T\<lparr>t_entries := t_entries T @ [e]\<rparr>)) (objects s)"
      and c1: "fill_calls s1 = Suc (fill_calls s)" and f1: "same_files s s1"
      using loop_body_effect [OF "1.prems", of E] by blast
    let ?T1 = "T\<lparr>t_entries := t_entries T @ [e]\<rparr>"
    have m1: "map_of (objects s1) t = Some (Tree ?T1)"
      by (simp add: o1 update_conv')
    obtain new s' where l: "fill_loop E t (i + 1) s1 = Some s'"
      and o': "objects s' = AList.update t (Tree (?T1\<lparr>t_entries := t_entries ?T1 @ new\<rparr>)) (objects s1)"
      and n: "length new = nat (100 - (i + 1))" and en: "\<forall>e\<in>set new. entry_of E (t_branches ?T1) e"
      and c': "fill_calls s' = fill_calls s1 + nat (100 - (i + 1))" and f': "same_files s1 s'"
      using "1.IH" [OF True b m1] by blast
    have "fill_loop E t i s = Some s'"
      using True b l by (subst fill_loop.simps) simp
    moreover have "objects s' = AList.update t (Tree (T\<lparr>t_entries := t_entries T @ (e # new)\<rparr>)) (objects s)"
      by (simp add: o' o1)
    moreover have "length (e # new) = nat (100 - i)" using n True by simp
    moreover have "\<forall>x\<in>set (e # new). entry_of E (t_branches T) x" using e en by simp
    moreover have "fill_calls s' = fill_calls s + nat (100 - i)" using c' c1 True by simp
    moreover have "same_files s s'" using f1 f' by (simp add: same_files_def)
    ultimately show ?thesis by blast
  qed
qed

subsection \<open>The whole macro\<close>

lemma floats_zero: "(\<lambda>a. 0 :: real)(Addr_pt := 0, Addr_eta := 0) = (\<lambda>a. 0)"
  by auto

lemma hist_prefix:
  "hist E (start dir d g) =
     Option.bind (fill_loop E (TFile (dir @ ''/simple_tree.root''), ''tree'') 0 (before_loop E dir d g))
       (\<lambda>s. Option.bind (TFile_Write (dir @ ''/simple_tree.root'') s)
          (TFile_Close (dir @ ''/simple_tree.root'')))"
  by (simp add: hist_def start_def before_loop_def filled_hist_def tree_of_def new_TH1F_def
      h_FillRandom_def new_TCanvas_def Draw_def SaveAs_def ends_with_def write_file_def
      TFile_Open_def new_TTree_def Branch_def resolve_def List.map_filter_simps floats_zero
      Let_def split: prod.splits)

text \<open>The macro always runs to its end. It leaves the file system \<open>after_hist\<close>, with a tree
  of 100 entries, after 100 calls of \<^verbatim>\<open>Fill\<close> and three writes to two paths.\<close>

lemma hist_effect:
  "\<exists>new s. hist E (start dir d g) = Some s \<and>
     length new = 100 \<and> (\<forall>e\<in>set new. entry_of E [(''pt'', Addr_pt), (''eta'', Addr_eta)] e) \<and>
     disk s = after_hist E dir d g new \<and>
     written s = [dir @ ''/hist.pdf'', dir @ ''/simple_tree.root'', dir @ ''/simple_tree.root''] \<and>
     fill_calls s = 100"
proof -
  let ?root = "dir @ ''/simple_tree.root''"
  let ?t = "(TFile ?root, ''tree'')"
  let ?s0 = "before_loop E dir d g"
  have m: "map_of (objects ?s0) ?t = Some (Tree (tree_of []))"
    by (simp add: before_loop_def)
  obtain new s1 where l: "fill_loop E ?t 0 ?s0 = Some s1"
    and o: "objects s1 = AList.update ?t (Tree ((tree_of [])\<lparr>t_entries := t_entries (tree_of []) @ new\<rparr>)) (objects ?s0)"
    and n: "length new = nat (100 - 0)"
    and en: "\<forall>e\<in>set new. entry_of E (t_branches (tree_of [])) e"
    and c: "fill_calls s1 = fill_calls ?s0 + nat (100 - 0)" and f: "same_files ?s0 s1"
    using fill_loop_effect [OF m, of E 0] by blast
  have o1: "objects s1 = [((gROOT, ''h''), Hist (fst (filled_hist E g))), (?t, Tree (tree_of new))]"
    using o by (simp add: before_loop_def tree_of_def)
  have d1: "disk s1 = disk ?s0" and w1: "written s1 = written ?s0"
    using f by (simp_all add: same_files_def)
  have a: "attached ?root s1 = [(''tree'', Tree (tree_of new))]"
    by (simp add: attached_def o1)
  have mr: "map_of (disk s1) ?root = Some (RootFile [])"
    by (simp add: d1 before_loop_def update_conv')
  let ?s2 = "write_file ?root (RootFile [(''tree'', Tree (tree_of new))]) s1"
  have w: "TFile_Write ?root s1 = Some ?s2"
    by (simp add: TFile_Write_def mr a)
  let ?s3 = "?s2\<lparr>objects := filter (\<lambda>(r, ob). fst r \<noteq> TFile ?root) (objects ?s2),
             gDirectory := (if gDirectory ?s2 = TFile ?root then gROOT else gDirectory ?s2)\<rparr>"
  have cl: "TFile_Close ?root ?s2 = Some ?s3"
    by (simp add: TFile_Close_def)
  have h: "hist E (start dir d g) = Some ?s3"
    by (simp add: hist_prefix l w cl)
  have "disk ?s3 = after_hist E dir d g new"
    by (simp add: write_file_def d1 before_loop_def after_hist_def)
  moreover have "written ?s3 = [dir @ ''/hist.pdf'', ?root, ?root]"
    by (simp add: write_file_def w1 before_loop_def)
  moreover have "fill_calls ?s3 = 100"
    using c by (simp add: write_file_def before_loop_def)
  moreover have "length new = 100" using n by simp
  moreover have "\<forall>e\<in>set new. entry_of E [(''pt'', Addr_pt), (''eta'', Addr_eta)] e"
    using en by (simp add: tree_of_def)
  ultimately show ?thesis using h by blast
qed

lemma after_hist_root:
  "map_of (after_hist E dir d g new) (resolve dir ''simple_tree.root'') =
     Some (RootFile [(''tree'', Tree (tree_of new))])"
  by (simp add: after_hist_def resolve_def update_conv')

lemma after_hist_map:
  "map_of (after_hist E dir d g new) =
     (map_of d)(resolve dir ''hist.pdf'' \<mapsto> PdfDocument [Hist (fst (filled_hist E g))],
                resolve dir ''simple_tree.root'' \<mapsto> RootFile [(''tree'', Tree (tree_of new))])"
  by (simp add: after_hist_def resolve_def update_conv')

lemma records_of_tree: "records_of (RootFile [(''tree'', Tree (tree_of new))]) = new"
  by (simp add: tree_of_def)

lemma entry_of_fields:
  assumes "entry_of E [(''pt'', Addr_pt), (''eta'', Addr_eta)] e"
  shows "length e = 2 \<and> map fst e = [''pt'', ''eta'']"
  using assms by (auto simp add: entry_of_def)

text \<open>
  C2: for every execution of the macro (any platform, any current directory, any files
  present before, any state of the generator) the structured-data file it writes,
  \<^verbatim>\<open>simple_tree.root\<close>, holds exactly 100 records, and this is the number of \<^verbatim>\<open>Fill\<close>
  operations the macro has performed.
\<close>

theorem hist_hundred_records:
  "\<exists>s f. hist E (start dir d g) = Some s \<and>
     map_of (disk s) (resolve dir ''simple_tree.root'') = Some f \<and>
     length (records_of f) = 100 \<and> length (records_of f) = fill_calls s"
proof -
  obtain new s where "hist E (start dir d g) = Some s" "length new = 100"
    "disk s = after_hist E dir d g new" "fill_calls s = 100"
    using hist_effect [of E dir d g] by blast
  then show ?thesis by (simp add: after_hist_root tree_of_def)
qed

text \<open>
  C3: every execution of the macro writes exactly two files, \<^verbatim>\<open>hist.pdf\<close> and
  \<^verbatim>\<open>simple_tree.root\<close> in the current directory: the first a document with the plot of the
  histogram, the second a tabular container with the tree; every other path of the
  file system is as it was before.
\<close>

theorem hist_writes_two_files:
  "\<exists>s h t. hist E (start dir d g) = Some s \<and>
     set (written s) = {resolve dir ''hist.pdf'', resolve dir ''simple_tree.root''} \<and>
     resolve dir ''hist.pdf'' \<noteq> resolve dir ''simple_tree.root'' \<and>
     map_of (disk s) =
       (map_of d)(resolve dir ''hist.pdf'' \<mapsto> PdfDocument [Hist h],
                  resolve dir ''simple_tree.root'' \<mapsto> RootFile [(''tree'', Tree t)])"
proof -
  obtain new s where h: "hist E (start dir d g) = Some s"
    "disk s = after_hist E dir d g new"
    "written s = [dir @ ''/hist.pdf'', dir @ ''/simple_tree.root'', dir @ ''/simple_tree.root'']"
    using hist_effect [of E dir d g] by blast
  have "set (written s) = {resolve dir ''hist.pdf'', resolve dir ''simple_tree.root''}"
    by (simp add: h resolve_def)
  moreover have "resolve dir ''hist.pdf'' \<noteq> resolve dir ''simple_tree.root''"
    by (simp add: resolve_def)
  ultimately show ?thesis using h(1) after_hist_map [of E dir d g new] h(2) by auto
qed

text \<open>
  C9: every record that the macro stores in the structured-data file has exactly two
  fields, named \<^verbatim>\<open>pt\<close> and \<^verbatim>\<open>eta\<close> in this order; this holds for each of the 100 records.
\<close>

theorem hist_records_two_fields:
  "\<exists>s f. hist E (start dir d g) = Some s \<and>
     map_of (disk s) (resolve dir ''simple_tree.root'') = Some f \<and>
     length (records_of f) = 100 \<and>
     list_all (\<lambda>r. length r = 2 \<and> map fst r = [''pt'', ''eta'']) (records_of f)"
proof -
  obtain new s where h: "hist E (start dir d g) = Some s" "length new = 100"
    "\<forall>e\<in>set new. entry_of E [(''pt'', Addr_pt), (''eta'', Addr_eta)] e"
    "disk s = after_hist E dir d g new"
    using hist_effect [of E dir d g] by blast
  have "list_all (\<lambda>r. length r = 2 \<and> map fst r = [''pt'', ''eta'']) new"
    unfolding list_all_iff using h(3) entry_of_fields by blast
  then show ?thesis using h by (simp add: after_hist_root tree_of_def)
qed

subsection \<open>The range of the stored values\<close>

lemma rounding_between:
  assumes "rounding r" "a \<le> x" "x \<le> b" "r a = a" "r b = b"
  shows "a \<le> r x \<and> r x \<le> b"
proof -
  have "mono r" using assms(1) by (simp add: rounding_def)
  then have "r a \<le> r x" "r x \<le> r b" using assms(2,3) by (auto dest: monoD)
  then show ?thesis using assms(4,5) by simp
qed

lemma pt_range:
  assumes "rounding rd" "rounding rf" "0 \<le> x" "x \<le> (1::real)"
  shows "0 \<le> rf (rd (x * 150)) \<and> rf (rd (x * 150)) \<le> 150"
proof -
  have "0 \<le> x * 150 \<and> x * 150 \<le> 150" using assms(3,4) by simp
  then have "0 \<le> rd (x * 150) \<and> rd (x * 150) \<le> 150"
    using rounding_between [OF assms(1), of 0 "x * 150" 150] assms(1)
    by (simp add: rounding_def)
  then show ?thesis
    using rounding_between [OF assms(2), of 0 "rd (x * 150)" 150] assms(2)
    by (simp add: rounding_def)
qed

lemma eta_range:
  assumes "rounding rd" "rounding rf" "0 \<le> x" "x \<le> (1::real)"
  shows "- 5 \<le> rf (rd (rd (x * 10) - 5)) \<and> rf (rd (rd (x * 10) - 5)) \<le> 5"
proof -
  have "0 \<le> x * 10 \<and> x * 10 \<le> 10" using assms(3,4) by simp
  then have "0 \<le> rd (x * 10) \<and> rd (x * 10) \<le> 10"
    using rounding_between [OF assms(1), of 0 "x * 10" 10] assms(1)
    by (simp add: rounding_def)
  then have "- 5 \<le> rd (x * 10) - 5 \<and> rd (x * 10) - 5 \<le> 5" by simp
  then have "- 5 \<le> rd (rd (x * 10) - 5) \<and> rd (rd (x * 10) - 5) \<le> 5"
    using rounding_between [OF assms(1), of "- 5" "rd (x * 10) - 5" 5] assms(1)
    by (simp add: rounding_def)
  then show ?thesis
    using rounding_between [OF assms(2), of "- 5" "rd (rd (x * 10) - 5)" 5] assms(2)
    by (simp add: rounding_def)
qed

lemma entry_of_range:
  assumes "unit_generator E" "rounding (to_double E)" "rounding (to_float E)"
    and "entry_of E [(''pt'', Addr_pt), (''eta'', Addr_eta)] e"
  shows "\<exists>pt eta. e = [(''pt'', pt), (''eta'', eta)] \<and> 0 \<le> pt \<and> pt \<le> 150 \<and> - 5 \<le> eta \<and> eta \<le> 5"
proof -
  obtain g1 g2 where e: "e = [(''pt'', to_float E (to_double E (fst (Rndm E 1 g1) * 150))),
      (''eta'', to_float E (to_double E (to_double E (fst (Rndm E 1 g2) * 10) - 5)))]"
    using assms(4) by (auto simp add: entry_of_def)
  have x: "0 \<le> fst (Rndm E 1 g1)" "fst (Rndm E 1 g1) \<le> 1"
    and y: "0 \<le> fst (Rndm E 1 g2)" "fst (Rndm E 1 g2) \<le> 1"
    using assms(1) by (simp_all add: unit_generator_def)
  show ?thesis
    using e pt_range [OF assms(2,3) x] eta_range [OF assms(2,3) y] by blast
qed

lemma example_env_ok:
  "unit_generator example_env" "rounding (to_double example_env)"
  "rounding (to_float example_env)"
proof -
  show "unit_generator example_env"
    by (simp add: unit_generator_def example_env_def)
  show "rounding (to_double example_env)"
    by (simp add: rounding_def example_env_def mono_def)
  have "mono (\<lambda>x::real. real_of_int \<lfloor>x * 1024\<rfloor> / 1024)"
    by (intro monoI divide_right_mono) (simp_all add: floor_mono)
  then show "rounding (to_float example_env)"
    by (simp add: rounding_def example_env_def)
qed

text \<open>
  C10: if the generator returns values in the interval [0, 1], then in every record the
  macro writes the field \<^verbatim>\<open>pt\<close> lies in [0, 150] and the field \<^verbatim>\<open>eta\<close> in [-5, 5]. The
  floating-point arithmetic enters through two properties only: conversion to double and
  to float is monotone and leaves the integers 0, 5, -5, 10 and 150 as they are.
\<close>

theorem hist_values_in_range:
  assumes "unit_generator E" and "rounding (to_double E)" and "rounding (to_float E)"
  shows "\<exists>s f. hist E (start dir d g) = Some s \<and>
     map_of (disk s) (resolve dir ''simple_tree.root'') = Some f \<and>
     length (records_of f) = 100 \<and>
     (\<forall>r\<in>set (records_of f). \<exists>pt eta. r = [(''pt'', pt), (''eta'', eta)] \<and>
        0 \<le> pt \<and> pt \<le> 150 \<and> - 5 \<le> eta \<and> eta \<le> 5)"
proof -
  obtain new s where h: "hist E (start dir d g) = Some s" "length new = 100"
    "\<forall>e\<in>set new. entry_of E [(''pt'', Addr_pt), (''eta'', Addr_eta)] e"
    "disk s = after_hist E dir d g new"
    using hist_effect [of E dir d g] by blast
  have "\<forall>r\<in>set new. \<exists>pt eta. r = [(''pt'', pt), (''eta'', eta)] \<and>
        0 \<le> pt \<and> pt \<le> 150 \<and> - 5 \<le> eta \<and> eta \<le> 5"
    using h(3) entry_of_range [OF assms] by blast
  then show ?thesis using h by (simp add: after_hist_root tree_of_def)
qed

theorem hist_values_in_range_witness:
  "unit_generator example_env \<and> rounding (to_double example_env) \<and>
   rounding (to_float example_env) \<and>
   (\<exists>s f. hist example_env (start ''/tmp/job2'' [] 1) = Some s \<and>
     map_of (disk s) (resolve ''/tmp/job2'' ''simple_tree.root'') = Some f \<and>
     length (records_of f) = 100 \<and>
     (\<forall>r\<in>set (records_of f). \<exists>pt eta. r = [(''pt'', pt), (''eta'', eta)] \<and>
        0 \<le> pt \<and> pt \<le> 150 \<and> - 5 \<le> eta \<and> eta \<le> 5))"
  using hist_values_in_range [OF example_env_ok, of "''/tmp/job2''" "[]" 1] example_env_ok
  by blast


section \<open>Properties of the execution core on the fixtures\<close>

subsection \<open>The working directory\<close>


lemma created:
  "create_workingDirectory tc dir d = Inr d' \<longleftrightarrow> can_create tc dir \<and> \<not> occupied dir d \<and> d' = d"
  by (auto simp add: create_workingDirectory_def)

lemma create_fixture [simp]:
  "create_workingDirectory (fixture_toolchain tc cc L E g) dir d = create_workingDirectory tc dir d"
  by (simp add: create_workingDirectory_def fixture_toolchain_def)

lemma fixture_fields [simp]:
  "can_create (fixture_toolchain tc cc L E g) = can_create tc"
  "runtime_available (fixture_toolchain tc cc L E g) = runtime_available tc"
  "executable_name (fixture_toolchain tc cc L E g) = executable_name tc"
  "file_size (fixture_toolchain tc cc L E g) = file_size tc"
  "budget (fixture_toolchain tc cc L E g) = budget tc"
  by (simp_all add: fixture_toolchain_def)

lemma hist_inside:
  "\<not> escaped dir [dir @ ''/hist.pdf'', dir @ ''/simple_tree.root'', dir @ ''/simple_tree.root'']"
  by (simp add: escaped_def inside_def components_def)

subsection \<open>What the validator sees\<close>







subsection \<open>The runs of the two fixtures\<close>

lemma prepare_script:
  "kind d = InterpretedScript \<Longrightarrow>
   prepare (fixture_toolchain tc cc L E g) d dsk =
     (if runtime_available tc then Inr (sourcePath d, dsk) else Inl RuntimeUnavailable)"
  by (simp add: prepare_def fixture_toolchain_def)

lemma prepare_native:
  "kind d = NativeCompiled \<Longrightarrow>
   prepare (fixture_toolchain tc cc L E g) d dsk =
     (if fst (cc (sourcePath d)) = 0
      then Inr (workingDirectory d @ ''/'' @ executable_name tc,
             AList.update (workingDirectory d @ ''/'' @ executable_name tc)
               (Executable (sourcePath d)) dsk)
      else Inl (CompileError (snd (cc (sourcePath d)))))"
  by (cases "cc (sourcePath d)")
    (simp add: prepare_def fixture_toolchain_def compiler_of_def update_conv' Let_def)

lemma runJob_script:
  assumes "kind d = InterpretedScript" "can_create tc (workingDirectory d)"
    "\<not> occupied (workingDirectory d) dsk" "runtime_available tc"
  shows "\<exists>new. length new = 100 \<and>
     (\<forall>e\<in>set new. entry_of E [(''pt'', Addr_pt), (''eta'', Addr_eta)] e) \<and>
     runJob (fixture_toolchain tc cc L E g) d dsk =
       Inr \<lparr>execution = \<lparr>prepareStatus = None, runStatus = Some (Finished 0), capturedOutput = []\<rparr>,
            checks = validate (fixture_toolchain tc cc L E g) (workingDirectory d)
              (after_hist E (workingDirectory d) dsk g new) (expectedArtifacts d),
            steps = [CreateDirectory, Prepare, Execute, Validate],
            disk_left = after_hist E (workingDirectory d) dsk g new\<rparr>"
proof -
  let ?dir = "workingDirectory d"
  obtain new s where h: "hist E (start ?dir dsk g) = Some s" "length new = 100"
    "\<forall>e\<in>set new. entry_of E [(''pt'', Addr_pt), (''eta'', Addr_eta)] e"
    "disk s = after_hist E ?dir dsk g new"
    "written s = [?dir @ ''/hist.pdf'', ?dir @ ''/simple_tree.root'', ?dir @ ''/simple_tree.root'']"
    using hist_effect [of E ?dir dsk g] by blast
  have x: "execute (fixture_toolchain tc cc L E g) d (sourcePath d) dsk =
      \<lparr>ended = Exited 0, combined_output = [], disk_after = after_hist E ?dir dsk g new,
       paths_written = [?dir @ ''/hist.pdf'', ?dir @ ''/simple_tree.root'', ?dir @ ''/simple_tree.root'']\<rparr>"
    using assms(1) h by (simp add: execute_def fixture_toolchain_def hist_process_def)
  have "runJob (fixture_toolchain tc cc L E g) d dsk =
       Inr \<lparr>execution = \<lparr>prepareStatus = None, runStatus = Some (Finished 0), capturedOutput = []\<rparr>,
            checks = validate (fixture_toolchain tc cc L E g) ?dir
              (after_hist E ?dir dsk g new) (expectedArtifacts d),
            steps = [CreateDirectory, Prepare, Execute, Validate],
            disk_left = after_hist E ?dir dsk g new\<rparr>"
    using assms
    by (simp add: runJob_def create_workingDirectory_def prepare_script x run_status_of_def
        hist_inside)
  then show ?thesis using h(2,3) by blast
qed

lemma runJob_native:
  assumes "kind d = NativeCompiled" "can_create tc (workingDirectory d)"
    "\<not> occupied (workingDirectory d) dsk" "fst (cc (sourcePath d)) = 0"
  shows "\<exists>out. runJob (fixture_toolchain tc cc L E g) d dsk =
       Inr \<lparr>execution = \<lparr>prepareStatus = None, runStatus = Some (Finished 0), capturedOutput = out\<rparr>,
            checks = validate (fixture_toolchain tc cc L E g) (workingDirectory d)
              (AList.update (workingDirectory d @ CHR ''/'' # executable_name tc)
                 (Executable (sourcePath d)) dsk) (expectedArtifacts d),
            steps = [CreateDirectory, Prepare, Execute, Validate],
            disk_left = AList.update (workingDirectory d @ CHR ''/'' # executable_name tc)
                 (Executable (sourcePath d)) dsk\<rparr>"
proof -
  let ?T = "fixture_toolchain tc cc L E g"
  let ?exe = "workingDirectory d @ CHR ''/'' # executable_name tc"
  let ?dsk = "AList.update ?exe (Executable (sourcePath d)) dsk"
  obtain out where m: "main L 1 [?exe] = Some (out, 0)"
    by (simp add: main_output)
  have p: "prepare ?T d dsk = Inr (?exe, ?dsk)"
    using assms(1,4) by (simp add: prepare_native)
  have x: "execute ?T d ?exe ?dsk =
      \<lparr>ended = Exited 0, combined_output = out, disk_after = ?dsk, paths_written = []\<rparr>"
    using assms(1) m by (simp add: execute_def fixture_toolchain_def showsize_process_def)
  have "runJob ?T d dsk =
       Inr \<lparr>execution = \<lparr>prepareStatus = None, runStatus = Some (Finished 0), capturedOutput = out\<rparr>,
            checks = validate ?T (workingDirectory d) ?dsk (expectedArtifacts d),
            steps = [CreateDirectory, Prepare, Execute, Validate], disk_left = ?dsk\<rparr>"
    using assms(2,3)
    by (simp add: runJob_def create_workingDirectory_def p x run_status_of_def escaped_def)
  then show ?thesis by blast
qed

lemma runJob_prepare_failed:
  assumes "create_workingDirectory tc (workingDirectory d) dsk = Inr dsk0"
    and "prepare tc d dsk0 = Inl pf"
  shows "runJob tc d dsk =
       Inr \<lparr>execution = \<lparr>prepareStatus = Some pf, runStatus = None,
               capturedOutput = (case pf of CompileError diag \<Rightarrow> diag | RuntimeUnavailable \<Rightarrow> [])\<rparr>,
            checks = [], steps = [CreateDirectory, Prepare], disk_left = dsk0\<rparr>"
  using assms by (simp add: runJob_def)





subsection \<open>The claims about the core\<close>

lemma artifact_outcome_not_run: "artifact_outcome cs \<noteq> RunFailed rf"
  by (simp add: artifact_outcome_def)


lemma example_fresh:
  "can_create example_toolchain dir" "\<not> occupied dir []" "runtime_available example_toolchain"
  by (simp_all add: example_toolchain_def occupied_def)

text \<open>
  C4: the two file names the macro passes to ROOT are relative. Run with a directory as
  current directory, the macro writes below that directory only: each path written is
  the directory followed by a name that never steps up. Hence a job of kind
  InterpretedScript that runs the macro in its working directory never ends in
  \<open>RunFailed\<close> with kind \<open>ArtifactEscapedSandbox\<close>.
\<close>

theorem hist_stays_inside:
  "is_relative ''hist.pdf'' \<and> is_relative ''simple_tree.root'' \<and>
   (\<exists>s. hist E (start dir dsk g) = Some s \<and>
      set (written s) = resolve dir ` {''hist.pdf'', ''simple_tree.root''} \<and>
      list_all (inside dir) (written s) \<and> \<not> escaped dir (written s)) \<and>
   (\<forall>j. kind d = InterpretedScript \<and> runJob (fixture_toolchain tc cc L E g) d dsk' = Inr j \<longrightarrow>
      runStatus (execution j) \<noteq> Some (Failed ArtifactEscapedSandbox) \<and>
      outcome (verdict j) \<noteq> RunFailed ArtifactEscapedSandbox)"
proof -
  obtain new s where h: "hist E (start dir dsk g) = Some s"
    "written s = [dir @ ''/hist.pdf'', dir @ ''/simple_tree.root'', dir @ ''/simple_tree.root'']"
    using hist_effect [of E dir dsk g] by blast
  have "set (written s) = resolve dir ` {''hist.pdf'', ''simple_tree.root''}"
    by (auto simp add: h(2) resolve_def)
  moreover have "\<not> escaped dir (written s)"
    by (simp add: h(2) hist_inside)
  moreover from this have "list_all (inside dir) (written s)"
    by (simp add: escaped_def list_all_iff list_ex_iff)
  ultimately have script: "\<exists>s. hist E (start dir dsk g) = Some s \<and>
      set (written s) = resolve dir ` {''hist.pdf'', ''simple_tree.root''} \<and>
      list_all (inside dir) (written s) \<and> \<not> escaped dir (written s)"
    using h(1) by blast
  have job: "runStatus (execution j) \<noteq> Some (Failed ArtifactEscapedSandbox) \<and>
      outcome (verdict j) \<noteq> RunFailed ArtifactEscapedSandbox"
    if k: "kind d = InterpretedScript" and r: "runJob (fixture_toolchain tc cc L E g) d dsk' = Inr j"
    for j
  proof -
    let ?T = "fixture_toolchain tc cc L E g"
    obtain dsk0 where "create_workingDirectory ?T (workingDirectory d) dsk' = Inr dsk0"
      using r by (cases "create_workingDirectory ?T (workingDirectory d) dsk'") (simp_all add: runJob_def)
    then have c: "can_create tc (workingDirectory d)" "\<not> occupied (workingDirectory d) dsk'"
      and cr: "create_workingDirectory ?T (workingDirectory d) dsk' = Inr dsk'"
      by (simp_all add: created)
    show ?thesis
    proof (cases "runtime_available tc")
      case False
      then have "prepare ?T d dsk' = Inl RuntimeUnavailable"
        using k by (simp add: prepare_script)
      from runJob_prepare_failed [OF cr this] r
      show ?thesis by (auto simp add: verdict_def report_def classify_def)
    next
      case True
      from runJob_script [where cc = cc and L = L and E = E and g = g, OF k c True] r
      show ?thesis by (auto simp add: verdict_def report_def classify_def artifact_outcome_not_run)
    qed
  qed
  show ?thesis
    using script job by (simp add: is_relative_def)
qed

theorem hist_stays_inside_witness:
  "kind script_job = InterpretedScript \<and>
   (\<exists>j. runJob (fixture_toolchain example_toolchain cc_accepts lp64 example_env 1) script_job [] = Inr j \<and>
      steps j = [CreateDirectory, Prepare, Execute, Validate] \<and>
      runStatus (execution j) \<noteq> Some (Failed ArtifactEscapedSandbox) \<and>
      outcome (verdict j) \<noteq> RunFailed ArtifactEscapedSandbox)"
proof -
  have k: "kind script_job = InterpretedScript" by (simp add: script_job_def)
  obtain j where j: "runJob (fixture_toolchain example_toolchain cc_accepts lp64 example_env 1) script_job [] = Inr j"
    "steps j = [CreateDirectory, Prepare, Execute, Validate]"
    using runJob_script [where cc = cc_accepts and L = lp64 and E = example_env and g = 1,
        OF k example_fresh]
    by force
  show ?thesis
    using hist_stays_inside [of example_env "''/tmp/job2''" "[]" 1 script_job example_toolchain
        cc_accepts lp64 "[]"] k j
    by blast
qed

text \<open>
  C5: the native fixture exits with status zero on every invocation, whatever its
  command line. Hence a job of kind NativeCompiled with no declared artifacts, whose
  working directory can be created fresh and whose source the compiler accepts, runs
  the program to exit status zero and gets the outcome \<open>Passed\<close>.
\<close>

theorem showsize_exits_zero:
  "(\<exists>out. main L arg argv = Some (out, 0)) \<and>
   (kind d = NativeCompiled \<and> expectedArtifacts d = [] \<and> can_create tc (workingDirectory d) \<and>
    \<not> occupied (workingDirectory d) dsk \<and> fst (cc (sourcePath d)) = 0 \<longrightarrow>
      (\<exists>j. runJob (fixture_toolchain tc cc L E g) d dsk = Inr j \<and>
         runStatus (execution j) = Some (Finished 0) \<and> outcome (verdict j) = Passed))"
proof -
  have "\<exists>out. main L arg argv = Some (out, 0)"
    by (simp add: main_output)
  moreover have "\<exists>j. runJob (fixture_toolchain tc cc L E g) d dsk = Inr j \<and>
         runStatus (execution j) = Some (Finished 0) \<and> outcome (verdict j) = Passed"
    if "kind d = NativeCompiled" "expectedArtifacts d = []" "can_create tc (workingDirectory d)"
      "\<not> occupied (workingDirectory d) dsk" "fst (cc (sourcePath d)) = 0"
    using runJob_native [where cc = cc and L = L and E = E and g = g, OF that(1,3,4,5)] that(2)
    by (auto simp add: verdict_def report_def classify_def validate_def artifact_outcome_def)
  ultimately show ?thesis by blast
qed

theorem showsize_exits_zero_witness:
  "kind native_job = NativeCompiled \<and> expectedArtifacts native_job = [] \<and>
   can_create example_toolchain (workingDirectory native_job) \<and>
   \<not> occupied (workingDirectory native_job) [] \<and> fst (cc_accepts (sourcePath native_job)) = 0 \<and>
   (\<exists>out. main lp64 1 [''/tmp/job1/showsize''] = Some (out, 0)) \<and>
   (\<exists>j. runJob (fixture_toolchain example_toolchain cc_accepts lp64 example_env 1) native_job [] = Inr j \<and>
      runStatus (execution j) = Some (Finished 0) \<and> outcome (verdict j) = Passed)"
proof -
  have h: "kind native_job = NativeCompiled" "expectedArtifacts native_job = []"
    "can_create example_toolchain (workingDirectory native_job)"
    "\<not> occupied (workingDirectory native_job) []" "fst (cc_accepts (sourcePath native_job)) = 0"
    by (simp_all add: native_job_def example_fresh cc_accepts_def)
  show ?thesis
    using showsize_exits_zero [of lp64 1 "[''/tmp/job1/showsize'']" native_job example_toolchain
        "[]" cc_accepts example_env 1] h
    by blast
qed





text \<open>
  C7: when the working directory has been created and prepare fails, runJob returns at
  once: the outcome is \<open>PrepareFailed\<close> with the failure of prepare, execute is not
  among the steps carried out and no run status exists, the list of artifact checks is
  empty, and the result is the same whichever process-execution capabilities the
  toolchain holds.
\<close>

theorem prepare_failure_short_circuits:
  assumes "create_workingDirectory tc (workingDirectory d) dsk = Inr dsk0"
    and "prepare tc d dsk0 = Inl pf"
  shows "\<exists>j. runJob tc d dsk = Inr j \<and> outcome (verdict j) = PrepareFailed pf \<and>
     Execute \<notin> set (steps j) \<and> steps j = [CreateDirectory, Prepare] \<and>
     runStatus (execution j) = None \<and> checks j = [] \<and> artifactChecks (verdict j) = [] \<and>
     runJob (tc\<lparr>run_executable := rx, run_interpreter := ri\<rparr>) d dsk = runJob tc d dsk"
proof -
  let ?tc = "tc\<lparr>run_executable := rx, run_interpreter := ri\<rparr>"
  have "create_workingDirectory ?tc (workingDirectory d) dsk = Inr dsk0"
    using assms(1) by (simp add: create_workingDirectory_def)
  moreover have "prepare ?tc d dsk0 = prepare tc d dsk0"
    by (cases "kind d") (simp_all add: prepare_def)
  then have "prepare ?tc d dsk0 = Inl pf"
    using assms(2) by simp
  ultimately have "runJob ?tc d dsk = runJob tc d dsk"
    using assms by (simp add: runJob_prepare_failed)
  then show ?thesis
    using runJob_prepare_failed [OF assms]
    by (simp add: verdict_def report_def classify_def)
qed

theorem prepare_failure_short_circuits_witness:
  "create_workingDirectory (fixture_toolchain example_toolchain cc_rejects lp64 example_env 1)
     (workingDirectory native_job) [] = Inr [] \<and>
   prepare (fixture_toolchain example_toolchain cc_rejects lp64 example_env 1) native_job [] =
     Inl (CompileError ''showsize.c:10: error'') \<and>
   (\<exists>j. runJob (fixture_toolchain example_toolchain cc_rejects lp64 example_env 1) native_job [] = Inr j \<and>
      outcome (verdict j) = PrepareFailed (CompileError ''showsize.c:10: error'') \<and>
      Execute \<notin> set (steps j) \<and> runStatus (execution j) = None \<and> checks j = [] \<and>
      artifactChecks (verdict j) = [])"
proof -
  let ?T = "fixture_toolchain example_toolchain cc_rejects lp64 example_env 1"
  have c: "create_workingDirectory ?T (workingDirectory native_job) [] = Inr []"
    by (simp add: created example_fresh)
  have p: "prepare ?T native_job [] = Inl (CompileError ''showsize.c:10: error'')"
    by (simp add: prepare_native native_job_def cc_rejects_def)
  show ?thesis
    using prepare_failure_short_circuits [OF c p] c p by blast
qed


end
